theory Spec2Isabelle
  imports Main
begin

section \<open>The type model\<close>

text \<open>
  \<^verbatim>\<open>expressions.py\<close> imports \<^verbatim>\<open>Type\<close> from \<^verbatim>\<open>types.py\<close>, which is not among the
  sources. The expressions read of a Type its \<^verbatim>\<open>name\<close>, \<^verbatim>\<open>is_subtype_of\<close>,
  \<^verbatim>\<open>method_named\<close>, \<^verbatim>\<open>is_instantiable\<close>, \<^verbatim>\<open>constructor\<close>, and the two
  distinguished values \<^verbatim>\<open>Type.object\<close> and \<^verbatim>\<open>Type.null\<close>.

  Types are Python objects compared by identity; here a type is a value of an
  arbitrary HOL type \<open>'ty\<close> (a reference), and what the objects hold is read through the
  type model below.
\<close>

text \<open>The failures a check can end in. \<^verbatim>\<open>JavaTypeError\<close> is the error signal of
  \<^verbatim>\<open>expressions.py\<close>, carrying its message; the other two are Python's own failures on
  reading an attribute of \<^verbatim>\<open>None\<close> and on indexing a tuple out of range.\<close>

datatype error = JavaTypeError string | AttributeError | IndexError

text \<open>Modelled from the spec: the method signature of \<^verbatim>\<open>types.py\<close> (name, ordered
  sequence of parameter types, return type).\<close>

record 'ty method_sig =
  method_name :: string
  argument_types :: "'ty list"
  return_type :: 'ty

text \<open>Modelled from the spec: the constructor signature of \<^verbatim>\<open>types.py\<close> (an ordered
  sequence of parameter types, no name and no return type). Its field is the
  \<^verbatim>\<open>argument_types\<close> attribute of the constructor.\<close>

record 'ty constructor_sig =
  constructor_argument_types :: "'ty list"

text \<open>Modelled from the spec: the Type objects of \<^verbatim>\<open>types.py\<close>. Every attribute of a
  type is a field read at that type: its name, its method table (a mapping from method
  name to signature), its optional constructor signature and its instantiability flag.
  The supertype chain (the supertype, the supertype of that one, and so on) is finite
  and acyclic by the invariant of the data model, and is held as the list of the proper
  ancestors, nearest first. \<open>type_object\<close> and \<open>type_null\<close> are \<^verbatim>\<open>Type.object\<close> and
  \<^verbatim>\<open>Type.null\<close>. The spec gives no text for the message of an unresolved method name,
  so the message is a field too.\<close>

record 'ty type_model =
  name :: "'ty \<Rightarrow> string"
  supertypes :: "'ty \<Rightarrow> 'ty list"
  methods :: "'ty \<Rightarrow> string \<Rightarrow> 'ty method_sig option"
  constructor :: "'ty \<Rightarrow> 'ty constructor_sig option"
  is_instantiable :: "'ty \<Rightarrow> bool"
  type_object :: 'ty
  type_null :: 'ty
  no_method_message :: "'ty \<Rightarrow> string \<Rightarrow> string"

text \<open>Modelled from the spec: a reference type is one whose supertype chain is rooted at
  the root reference type (the root itself included).\<close>

definition is_reference_type :: "'ty type_model \<Rightarrow> 'ty \<Rightarrow> bool" where
  "is_reference_type T t \<longleftrightarrow> t = type_object T \<or> type_object T \<in> set (supertypes T t)"

text \<open>Modelled from the spec: \<^verbatim>\<open>is_subtype_of\<close> of \<^verbatim>\<open>types.py\<close>: true iff
  \<^verbatim>\<open>self == other\<close>, or \<^verbatim>\<open>self\<close> is the null type and \<^verbatim>\<open>other\<close> is any reference type,
  or walking the supertype chain of \<^verbatim>\<open>self\<close> reaches \<^verbatim>\<open>other\<close>.\<close>

definition is_subtype_of :: "'ty type_model \<Rightarrow> 'ty \<Rightarrow> 'ty \<Rightarrow> bool" where
  "is_subtype_of T self other \<longleftrightarrow>
     self = other \<or> (self = type_null T \<and> is_reference_type T other) \<or>
     other \<in> set (supertypes T self)"

text \<open>Modelled from the spec: the search of \<^verbatim>\<open>method_named\<close> of \<^verbatim>\<open>types.py\<close> along a
  chain of types: the entry of the first type of the list whose method table has the
  name (the nearest ancestor wins).\<close>

fun find_method :: "('ty \<Rightarrow> string \<Rightarrow> 'ty method_sig option) \<Rightarrow> 'ty list \<Rightarrow> string \<Rightarrow> 'ty method_sig option" where
  "find_method tbl [] n = None"
| "find_method tbl (t # ts) n =
     (case tbl t n of Some m \<Rightarrow> Some m | None \<Rightarrow> find_method tbl ts n)"

text \<open>Modelled from the spec: \<^verbatim>\<open>method_named\<close> of \<^verbatim>\<open>types.py\<close>: it searches the method
  table of \<^verbatim>\<open>self\<close>, then each ancestor in turn, and returns the first match; if no match
  exists anywhere in the chain, the failure is a type error.\<close>

definition method_named :: "'ty type_model \<Rightarrow> 'ty \<Rightarrow> string \<Rightarrow> error + 'ty method_sig" where
  "method_named T self n =
     (case find_method (methods T) (self # supertypes T self) n of
        Some m \<Rightarrow> Inr m
      | None \<Rightarrow> Inl (JavaTypeError (no_method_message T self n)))"

section \<open>Formatting\<close>

text \<open>Python's \<^verbatim>\<open>str\<close> of a length (a non-negative integer), as \<^verbatim>\<open>format\<close> prints it.\<close>

fun str :: "nat \<Rightarrow> string" where
  "str n = (if n < 10 then [''0123456789'' ! n]
            else str (n div 10) @ [''0123456789'' ! (n mod 10)])"

declare str.simps [simp del]

text \<open>Python's \<^verbatim>\<open>sep.join(xs)\<close>.\<close>

fun join :: "string \<Rightarrow> string list \<Rightarrow> string" where
  "join sep [] = []"
| "join sep [x] = x"
| "join sep (x # y # ys) = x @ sep @ join sep (y # ys)"

text \<open>\<^verbatim>\<open>names\<close>, the helper for error messages.\<close>

definition names :: "'ty type_model \<Rightarrow> 'ty list \<Rightarrow> string" where
  "names T named_things = ''('' @ join '', '' (map (name T) named_things) @ '')''"

section \<open>Expressions\<close>

text \<open>The four classes of expression nodes. \<^verbatim>\<open>NullLiteral\<close> is a subclass of
  \<^verbatim>\<open>Literal\<close> that overrides nothing: its constructor builds the literal
  \<^verbatim>\<open>Literal("null", Type.null)\<close>.\<close>

datatype 'ty expr =
    Variable string 'ty
  | Literal string 'ty
  | MethodCall "'ty expr" string "'ty expr list"
  | ConstructorCall 'ty "'ty expr list"

definition NullLiteral :: "'ty type_model \<Rightarrow> 'ty expr" where
  "NullLiteral T = Literal ''null'' (type_null T)"

subsection \<open>static\_type\<close>

fun static_type :: "'ty type_model \<Rightarrow> 'ty expr \<Rightarrow> error + 'ty" where
  "static_type T (Variable n declared_type) = Inr declared_type"
| "static_type T (Literal v t) = Inr t"
| "static_type T (MethodCall receiver mname args) =
     (case static_type T receiver of
        Inl e \<Rightarrow> Inl e
      | Inr receiver_type \<Rightarrow>
          (case method_named T receiver_type mname of
             Inl e \<Rightarrow> Inl e
           | Inr m \<Rightarrow> Inr (return_type m)))"
| "static_type T (ConstructorCall instantiated_type args) = Inr instantiated_type"

text \<open>The comprehension \<^verbatim>\<open>[a.static_type() for a in self.args]\<close>: it fails with the
  failure of the first argument whose static type fails.\<close>

fun static_types :: "'ty type_model \<Rightarrow> 'ty expr list \<Rightarrow> error + 'ty list" where
  "static_types T [] = Inr []"
| "static_types T (a # as) =
     (case static_type T a of
        Inl e \<Rightarrow> Inl e
      | Inr t \<Rightarrow> (case static_types T as of Inl e \<Rightarrow> Inl e | Inr ts \<Rightarrow> Inr (t # ts)))"

subsection \<open>check\_types\<close>

text \<open>The loop \<^verbatim>\<open>for i in range(0, len(expected_arg_types))\<close> of both classes, over the
  indices still to visit. \<open>mismatch\<close> is what the \<^verbatim>\<open>raise\<close> of the loop body ends in.\<close>

fun check_arg_types :: "'ty type_model \<Rightarrow> 'ty expr list \<Rightarrow> 'ty list \<Rightarrow> error \<Rightarrow> nat list \<Rightarrow> error + unit" where
  "check_arg_types T args expected_arg_types mismatch [] = Inr ()"
| "check_arg_types T args expected_arg_types mismatch (i # idxs) =
     (if i < length args then
        (case static_type T (args ! i) of
           Inl e \<Rightarrow> Inl e
         | Inr t \<Rightarrow>
             if i < length expected_arg_types then
               (if \<not> is_subtype_of T t (expected_arg_types ! i) then Inl mismatch
                else check_arg_types T args expected_arg_types mismatch idxs)
             else Inl IndexError)
      else Inl IndexError)"

text \<open>What \<^verbatim>\<open>raise JavaTypeError("{0}.{1}() expects ...".format(...))\<close> of
  \<^verbatim>\<open>MethodCall.check_types\<close> ends in: the arguments of \<^verbatim>\<open>format\<close> are evaluated from
  left to right, and a failure of one of them is the failure raised.\<close>

definition method_mismatch :: "'ty type_model \<Rightarrow> 'ty expr \<Rightarrow> string \<Rightarrow> 'ty list \<Rightarrow> 'ty expr list \<Rightarrow> error" where
  "method_mismatch T receiver mname expected_arg_types args =
     (case static_type T receiver of
        Inl e \<Rightarrow> e
      | Inr receiver_type \<Rightarrow>
          (case static_types T args of
             Inl e \<Rightarrow> e
           | Inr actual \<Rightarrow>
               JavaTypeError (name T receiver_type @ ''.'' @ mname @
                 ''() expects arguments of type '' @ names T expected_arg_types @
                 '', but got '' @ names T actual)))"

text \<open>The same for \<^verbatim>\<open>ConstructorCall.check_types\<close>.\<close>

definition constructor_mismatch :: "'ty type_model \<Rightarrow> 'ty \<Rightarrow> 'ty list \<Rightarrow> 'ty expr list \<Rightarrow> error" where
  "constructor_mismatch T instantiated_type expected_arg_types args =
     (case static_types T args of
        Inl e \<Rightarrow> e
      | Inr actual \<Rightarrow>
          JavaTypeError (name T instantiated_type @
            '' constructor expects arguments of type '' @ names T expected_arg_types @
            '', but got '' @ names T actual))"

text \<open>\<^verbatim>\<open>MethodCall.check_types\<close> after the recursive checks of the children: the
  receiver's capability, the resolution of the method, the number of arguments, the
  types of the arguments.\<close>

definition check_method_call :: "'ty type_model \<Rightarrow> 'ty expr \<Rightarrow> string \<Rightarrow> 'ty expr list \<Rightarrow> error + unit" where
  "check_method_call T receiver mname args =
     (case static_type T receiver of
        Inl e \<Rightarrow> Inl e
      | Inr receiver_type \<Rightarrow>
          if \<not> is_subtype_of T receiver_type (type_object T) then
            Inl (JavaTypeError (''Type '' @ name T receiver_type @ '' does not have methods''))
          else
            (case method_named T receiver_type mname of
               Inl e \<Rightarrow> Inl e
             | Inr m \<Rightarrow>
                 let expected_arg_types = argument_types m in
                 if length expected_arg_types \<noteq> length args then
                   Inl (JavaTypeError (''Wrong number of arguments for '' @
                     name T receiver_type @ ''.'' @ mname @ ''(): expected '' @
                     str (length expected_arg_types) @ '', got '' @ str (length args)))
                 else
                   check_arg_types T args expected_arg_types
                     (method_mismatch T receiver mname expected_arg_types args)
                     [0 ..< length expected_arg_types]))"

text \<open>\<^verbatim>\<open>ConstructorCall.check_types\<close> after the recursive checks of the arguments.
  Reading \<^verbatim>\<open>argument_types\<close> of a constructor that is not there fails with Python's
  \<^verbatim>\<open>AttributeError\<close>.\<close>

definition check_constructor_call :: "'ty type_model \<Rightarrow> 'ty \<Rightarrow> 'ty expr list \<Rightarrow> error + unit" where
  "check_constructor_call T instantiated_type args =
     (if \<not> is_instantiable T instantiated_type then
        Inl (JavaTypeError (''Type '' @ name T instantiated_type @ '' is not instantiable''))
      else
        (case constructor T instantiated_type of
           None \<Rightarrow> Inl AttributeError
         | Some c \<Rightarrow>
             let expected_arg_types = constructor_argument_types c in
             if length expected_arg_types \<noteq> length args then
               Inl (JavaTypeError (''Wrong number of arguments for '' @
                 name T instantiated_type @ '' constructor: expected '' @
                 str (length expected_arg_types) @ '', got '' @ str (length args)))
             else
               check_arg_types T args expected_arg_types
                 (constructor_mismatch T instantiated_type expected_arg_types args)
                 [0 ..< length expected_arg_types]))"

text \<open>\<^verbatim>\<open>check_types\<close> of the four classes; \<open>check_each\<close> is the loop
  \<^verbatim>\<open>for arg in self.args: arg.check_types()\<close>.\<close>

fun check_types :: "'ty type_model \<Rightarrow> 'ty expr \<Rightarrow> error + unit"
  and check_each :: "'ty type_model \<Rightarrow> 'ty expr list \<Rightarrow> error + unit" where
  "check_types T (Variable n declared_type) = Inr ()"
| "check_types T (Literal v t) = Inr ()"
| "check_types T (MethodCall receiver mname args) =
     (case check_types T receiver of
        Inl e \<Rightarrow> Inl e
      | Inr _ \<Rightarrow>
          (case check_each T args of
             Inl e \<Rightarrow> Inl e
           | Inr _ \<Rightarrow> check_method_call T receiver mname args))"
| "check_types T (ConstructorCall instantiated_type args) =
     (case check_each T args of
        Inl e \<Rightarrow> Inl e
      | Inr _ \<Rightarrow> check_constructor_call T instantiated_type args)"
| "check_each T [] = Inr ()"
| "check_each T (a # as) =
     (case check_types T a of Inl e \<Rightarrow> Inl e | Inr _ \<Rightarrow> check_each T as)"

section \<open>Nodes as objects in a store\<close>

text \<open>The expressions above are values. In the program they are objects: a node holds
  references to its children, two fields may hold the same object, and a method could
  assign to a field. To speak of that, the nodes are put in a store: a reference is an
  address, the store gives the object at each address, and the fields of an object of
  each class are the arguments of its constructor (\<^verbatim>\<open>name\<close> and \<^verbatim>\<open>declared_type\<close>;
  \<^verbatim>\<open>value\<close> and \<^verbatim>\<open>type\<close>; \<^verbatim>\<open>receiver\<close>, \<^verbatim>\<open>method_name\<close> and \<^verbatim>\<open>args\<close>;
  \<^verbatim>\<open>instantiated_type\<close> and \<^verbatim>\<open>args\<close>).\<close>

datatype 'ty node =
    VariableObj string 'ty
  | LiteralObj string 'ty
  | MethodCallObj nat string "nat list"
  | ConstructorCallObj 'ty "nat list"

text \<open>A method runs on a store and ends with a store. It returns a value or raises
  (\<open>Some\<close> of a result) or exceeds the recursion depth that it was given (\<open>None\<close>), which
  is what happens on a store whose references form a cycle.\<close>

type_synonym 'ty heap = "nat \<Rightarrow> 'ty node"

type_synonym ('a, 'ty) run = "'ty heap \<Rightarrow> (error + 'a) option \<times> 'ty heap"

text \<open>Reading an attribute of an object: Python raises \<^verbatim>\<open>AttributeError\<close> when the
  object has no such attribute.\<close>

fun get_declared_type :: "'ty node \<Rightarrow> error + 'ty" where
  "get_declared_type (VariableObj n t) = Inr t"
| "get_declared_type obj = Inl AttributeError"

fun get_type :: "'ty node \<Rightarrow> error + 'ty" where
  "get_type (LiteralObj v t) = Inr t"
| "get_type obj = Inl AttributeError"

fun get_receiver :: "'ty node \<Rightarrow> error + nat" where
  "get_receiver (MethodCallObj r m as) = Inr r"
| "get_receiver obj = Inl AttributeError"

fun get_method_name :: "'ty node \<Rightarrow> error + string" where
  "get_method_name (MethodCallObj r m as) = Inr m"
| "get_method_name obj = Inl AttributeError"

fun get_args :: "'ty node \<Rightarrow> error + nat list" where
  "get_args (MethodCallObj r m as) = Inr as"
| "get_args (ConstructorCallObj t as) = Inr as"
| "get_args obj = Inl AttributeError"

fun get_instantiated_type :: "'ty node \<Rightarrow> error + 'ty" where
  "get_instantiated_type (ConstructorCallObj t as) = Inr t"
| "get_instantiated_type obj = Inl AttributeError"

text \<open>The steps of a method body: reading \<^verbatim>\<open>self.field\<close> from the store as it is at
  that moment, \<^verbatim>\<open>return\<close>, \<^verbatim>\<open>raise\<close>, the sequence of two steps (the second is not run
  when the first raises), and a call into the type model, which has no access to the
  nodes.\<close>

definition attr :: "('ty node \<Rightarrow> error + 'a) \<Rightarrow> nat \<Rightarrow> ('a, 'ty) run" where
  "attr field self h = (Some (field (h self)), h)"

definition return_value :: "'a \<Rightarrow> ('a, 'ty) run" where
  "return_value x h = (Some (Inr x), h)"

definition raise :: "error \<Rightarrow> ('a, 'ty) run" where
  "raise e h = (Some (Inl e), h)"

definition and_then :: "('a, 'ty) run \<Rightarrow> ('a \<Rightarrow> ('b, 'ty) run) \<Rightarrow> ('b, 'ty) run" where
  "and_then m f h =
     (case m h of
        (None, h') \<Rightarrow> (None, h')
      | (Some (Inl e), h') \<Rightarrow> (Some (Inl e), h')
      | (Some (Inr x), h') \<Rightarrow> f x h')"

definition of_result :: "error + 'a \<Rightarrow> ('a, 'ty) run" where
  "of_result r h = (Some r, h)"

text \<open>\<^verbatim>\<open>static_type\<close> of the four classes, dispatched on the class of the object at
  \<open>self\<close>. Each attribute is read from the store at the moment of the access.\<close>

fun static_type_run :: "nat \<Rightarrow> 'ty type_model \<Rightarrow> nat \<Rightarrow> ('ty, 'ty) run" where
  "static_type_run 0 T self h = (None, h)"
| "static_type_run (Suc depth) T self h =
     (case h self of
        VariableObj n t \<Rightarrow> attr get_declared_type self h
      | LiteralObj v t \<Rightarrow> attr get_type self h
      | MethodCallObj r m as \<Rightarrow>
          and_then (attr get_receiver self) (\<lambda>receiver.
          and_then (\<lambda>h'. static_type_run depth T receiver h') (\<lambda>receiver_type.
          and_then (attr get_method_name self) (\<lambda>mname.
          and_then (of_result (method_named T receiver_type mname)) (\<lambda>m.
            return_value (return_type m))))) h
      | ConstructorCallObj t as \<Rightarrow> attr get_instantiated_type self h)"

text \<open>The loop \<^verbatim>\<open>for arg in self.args: arg.check_types()\<close> and the comprehension
  \<^verbatim>\<open>[a.static_type() for a in self.args]\<close>, each call running on the store the
  previous one left.\<close>

fun for_each :: "(nat \<Rightarrow> (unit, 'ty) run) \<Rightarrow> nat list \<Rightarrow> (unit, 'ty) run" where
  "for_each body [] h = return_value () h"
| "for_each body (a # as) h = and_then (body a) (\<lambda>u h'. for_each body as h') h"

fun collect :: "(nat \<Rightarrow> ('a, 'ty) run) \<Rightarrow> nat list \<Rightarrow> ('a list, 'ty) run" where
  "collect elem [] h = return_value [] h"
| "collect elem (a # as) h =
     and_then (elem a) (\<lambda>x.
     and_then (\<lambda>h'. collect elem as h') (\<lambda>xs.
       return_value (x # xs))) h"

text \<open>The loop over the indices of both \<^verbatim>\<open>check_types\<close>; \<^verbatim>\<open>self.args[i]\<close> is read
  from the store at every iteration.\<close>

fun arg_types_run :: "'ty type_model \<Rightarrow> (nat \<Rightarrow> ('ty, 'ty) run) \<Rightarrow> nat \<Rightarrow> 'ty list \<Rightarrow>
    (unit, 'ty) run \<Rightarrow> nat list \<Rightarrow> (unit, 'ty) run" where
  "arg_types_run T st self expected_arg_types mismatch [] h = return_value () h"
| "arg_types_run T st self expected_arg_types mismatch (i # idxs) h =
     and_then (attr get_args self) (\<lambda>args.
       if i < length args then
         and_then (st (args ! i)) (\<lambda>t.
           if i < length expected_arg_types then
             (if \<not> is_subtype_of T t (expected_arg_types ! i) then mismatch
              else (\<lambda>h'. arg_types_run T st self expected_arg_types mismatch idxs h'))
           else raise IndexError)
       else raise IndexError) h"

text \<open>The \<^verbatim>\<open>raise\<close> of the loop body in \<^verbatim>\<open>MethodCall.check_types\<close> and in
  \<^verbatim>\<open>ConstructorCall.check_types\<close>, with the evaluation of the arguments of
  \<^verbatim>\<open>format\<close>.\<close>

definition method_mismatch_run :: "'ty type_model \<Rightarrow> (nat \<Rightarrow> ('ty, 'ty) run) \<Rightarrow> nat \<Rightarrow> 'ty list \<Rightarrow>
    (unit, 'ty) run" where
  "method_mismatch_run T st self expected_arg_types =
     and_then (attr get_receiver self) (\<lambda>receiver.
     and_then (st receiver) (\<lambda>receiver_type.
     and_then (attr get_method_name self) (\<lambda>mname.
     and_then (attr get_args self) (\<lambda>args.
     and_then (collect st args) (\<lambda>actual.
       raise (JavaTypeError (name T receiver_type @ ''.'' @ mname @
         ''() expects arguments of type '' @ names T expected_arg_types @
         '', but got '' @ names T actual)))))))"

definition constructor_mismatch_run :: "'ty type_model \<Rightarrow> (nat \<Rightarrow> ('ty, 'ty) run) \<Rightarrow> nat \<Rightarrow> 'ty list \<Rightarrow>
    (unit, 'ty) run" where
  "constructor_mismatch_run T st self expected_arg_types =
     and_then (attr get_instantiated_type self) (\<lambda>instantiated_type.
     and_then (attr get_args self) (\<lambda>args.
     and_then (collect st args) (\<lambda>actual.
       raise (JavaTypeError (name T instantiated_type @
         '' constructor expects arguments of type '' @ names T expected_arg_types @
         '', but got '' @ names T actual)))))"

text \<open>\<^verbatim>\<open>MethodCall.check_types\<close> and \<^verbatim>\<open>ConstructorCall.check_types\<close> after the
  recursive checks of the children.\<close>

definition check_method_call_run :: "'ty type_model \<Rightarrow> (nat \<Rightarrow> ('ty, 'ty) run) \<Rightarrow> nat \<Rightarrow> (unit, 'ty) run" where
  "check_method_call_run T st self =
     and_then (attr get_receiver self) (\<lambda>receiver.
     and_then (st receiver) (\<lambda>receiver_type.
       if \<not> is_subtype_of T receiver_type (type_object T) then
         raise (JavaTypeError (''Type '' @ name T receiver_type @ '' does not have methods''))
       else
         and_then (attr get_method_name self) (\<lambda>mname.
         and_then (of_result (method_named T receiver_type mname)) (\<lambda>m.
         and_then (attr get_args self) (\<lambda>args.
           let expected_arg_types = argument_types m in
           if length expected_arg_types \<noteq> length args then
             raise (JavaTypeError (''Wrong number of arguments for '' @
               name T receiver_type @ ''.'' @ mname @ ''(): expected '' @
               str (length expected_arg_types) @ '', got '' @ str (length args)))
           else
             arg_types_run T st self expected_arg_types
               (method_mismatch_run T st self expected_arg_types)
               [0 ..< length expected_arg_types])))))"

definition check_constructor_call_run :: "'ty type_model \<Rightarrow> (nat \<Rightarrow> ('ty, 'ty) run) \<Rightarrow> nat \<Rightarrow> (unit, 'ty) run" where
  "check_constructor_call_run T st self =
     and_then (attr get_instantiated_type self) (\<lambda>instantiated_type.
       if \<not> is_instantiable T instantiated_type then
         raise (JavaTypeError (''Type '' @ name T instantiated_type @ '' is not instantiable''))
       else
         (case constructor T instantiated_type of
            None \<Rightarrow> raise AttributeError
          | Some c \<Rightarrow>
              and_then (attr get_args self) (\<lambda>args.
                let expected_arg_types = constructor_argument_types c in
                if length expected_arg_types \<noteq> length args then
                  raise (JavaTypeError (''Wrong number of arguments for '' @
                    name T instantiated_type @ '' constructor: expected '' @
                    str (length expected_arg_types) @ '', got '' @ str (length args)))
                else
                  arg_types_run T st self expected_arg_types
                    (constructor_mismatch_run T st self expected_arg_types)
                    [0 ..< length expected_arg_types])))"

text \<open>\<^verbatim>\<open>check_types\<close> of the four classes. A call of a method of a child is one
  level deeper; the calls of \<^verbatim>\<open>static_type\<close> that the body makes are at the same
  level as the calls of \<^verbatim>\<open>check_types\<close> on the children.\<close>

fun check_types_run :: "nat \<Rightarrow> 'ty type_model \<Rightarrow> nat \<Rightarrow> (unit, 'ty) run" where
  "check_types_run 0 T self h = (None, h)"
| "check_types_run (Suc depth) T self h =
     (case h self of
        VariableObj n t \<Rightarrow> return_value () h
      | LiteralObj v t \<Rightarrow> return_value () h
      | MethodCallObj r m as \<Rightarrow>
          and_then (attr get_receiver self) (\<lambda>receiver.
          and_then (\<lambda>h'. check_types_run depth T receiver h') (\<lambda>u.
          and_then (attr get_args self) (\<lambda>args.
          and_then (for_each (\<lambda>arg h'. check_types_run depth T arg h') args) (\<lambda>u.
            check_method_call_run T (static_type_run depth T) self)))) h
      | ConstructorCallObj t as \<Rightarrow>
          and_then (attr get_args self) (\<lambda>args.
          and_then (for_each (\<lambda>arg h'. check_types_run depth T arg h') args) (\<lambda>u.
            check_constructor_call_run T (static_type_run depth T) self)) h)"

text \<open>The expression that a store holds at an address, when the references below the
  address form a tree (or share subtrees) of at most the given depth.\<close>

fun load :: "nat \<Rightarrow> 'ty heap \<Rightarrow> nat \<Rightarrow> 'ty expr option"
  and load_all :: "nat \<Rightarrow> 'ty heap \<Rightarrow> nat list \<Rightarrow> 'ty expr list option" where
  "load 0 h a = None"
| "load (Suc depth) h a =
     (case h a of
        VariableObj n t \<Rightarrow> Some (Variable n t)
      | LiteralObj v t \<Rightarrow> Some (Literal v t)
      | MethodCallObj r m as \<Rightarrow>
          (case load depth h r of
             None \<Rightarrow> None
           | Some receiver \<Rightarrow>
               (case load_all depth h as of
                  None \<Rightarrow> None
                | Some args \<Rightarrow> Some (MethodCall receiver m args)))
      | ConstructorCallObj t as \<Rightarrow>
          (case load_all depth h as of
             None \<Rightarrow> None
           | Some args \<Rightarrow> Some (ConstructorCall t args)))"
| "load_all depth h [] = Some []"
| "load_all depth h (a # as) =
     (case load depth h a of
        None \<Rightarrow> None
      | Some x \<Rightarrow> (case load_all depth h as of None \<Rightarrow> None | Some xs \<Rightarrow> Some (x # xs)))"

text \<open>A method is read-only when every run of it ends with the store it started
  with.\<close>

definition read_only :: "('a, 'ty) run \<Rightarrow> bool" where
  "read_only m \<longleftrightarrow> (\<forall>h. snd (m h) = h)"

section \<open>A sample hierarchy\<close>

text \<open>The hierarchy of the scenarios of the specification, used to run the checker on
  concrete trees: \<open>Object\<close> (the root, not instantiable) declares \<open>toString(): Object\<close>;
  \<open>Animal\<close> is an instantiable subtype of \<open>Object\<close> with a constructor without
  parameters and the methods \<open>feed(Animal): void\<close> and \<open>meet(Animal, Animal): void\<close>;
  \<open>Dog\<close> is a subtype of \<open>Animal\<close> with a constructor without parameters and the method
  \<open>bark(): void\<close>; \<open>Kennel\<close> is constructed from a \<open>Dog\<close> and an \<open>Animal\<close>; \<open>int\<close> and
  \<open>void\<close> are unrelated to \<open>Object\<close>; \<open>null\<close> is the null type. \<open>int\<close>, \<open>void\<close> and
  \<open>null\<close> carry no constructor signature.\<close>

datatype sample_type = TObject | TAnimal | TDog | TKennel | TInt | TVoid | TNull

fun sample_name :: "sample_type \<Rightarrow> string" where
  "sample_name TObject = ''Object''"
| "sample_name TAnimal = ''Animal''"
| "sample_name TDog = ''Dog''"
| "sample_name TKennel = ''Kennel''"
| "sample_name TInt = ''int''"
| "sample_name TVoid = ''void''"
| "sample_name TNull = ''null''"

fun sample_supertypes :: "sample_type \<Rightarrow> sample_type list" where
  "sample_supertypes TAnimal = [TObject]"
| "sample_supertypes TDog = [TAnimal, TObject]"
| "sample_supertypes TKennel = [TObject]"
| "sample_supertypes t = []"

fun sample_methods :: "sample_type \<Rightarrow> string \<Rightarrow> sample_type method_sig option" where
  "sample_methods TObject n =
     (if n = ''toString'' then
        Some \<lparr>method_name = ''toString'', argument_types = [], return_type = TObject\<rparr>
      else None)"
| "sample_methods TAnimal n =
     (if n = ''feed'' then
        Some \<lparr>method_name = ''feed'', argument_types = [TAnimal], return_type = TVoid\<rparr>
      else if n = ''meet'' then
        Some \<lparr>method_name = ''meet'', argument_types = [TAnimal, TAnimal], return_type = TVoid\<rparr>
      else None)"
| "sample_methods TDog n =
     (if n = ''bark'' then
        Some \<lparr>method_name = ''bark'', argument_types = [], return_type = TVoid\<rparr>
      else None)"
| "sample_methods t n = None"

fun sample_constructor :: "sample_type \<Rightarrow> sample_type constructor_sig option" where
  "sample_constructor TObject = Some \<lparr>constructor_argument_types = []\<rparr>"
| "sample_constructor TAnimal = Some \<lparr>constructor_argument_types = []\<rparr>"
| "sample_constructor TDog = Some \<lparr>constructor_argument_types = []\<rparr>"
| "sample_constructor TKennel = Some \<lparr>constructor_argument_types = [TDog, TAnimal]\<rparr>"
| "sample_constructor t = None"

fun sample_is_instantiable :: "sample_type \<Rightarrow> bool" where
  "sample_is_instantiable TAnimal = True"
| "sample_is_instantiable TDog = True"
| "sample_is_instantiable TKennel = True"
| "sample_is_instantiable t = False"

definition sample :: "sample_type type_model" where
  "sample = \<lparr>name = sample_name, supertypes = sample_supertypes, methods = sample_methods,
     constructor = sample_constructor, is_instantiable = sample_is_instantiable,
     type_object = TObject, type_null = TNull,
     no_method_message = (\<lambda>t n. sample_name t @ '' has no method named '' @ n)\<rparr>"



text \<open>A store for the sample hierarchy: a \<open>Dog\<close> variable at every address but four;
  at 1 the call \<open>d.meet(d, 5)\<close>, whose receiver and first argument are the same object;
  at 2 the literal \<open>5\<close>; at 3 a method call that is its own receiver; at 4 the call
  \<open>d.bark()\<close>.\<close>

definition sample_heap :: "sample_type heap" where
  "sample_heap = (\<lambda>a. VariableObj ''d'' TDog)
     (1 := MethodCallObj 0 ''meet'' [0, 2],
      2 := LiteralObj ''5'' TInt,
      3 := MethodCallObj 3 ''toString'' [],
      4 := MethodCallObj 0 ''bark'' [])"

section \<open>Properties of the helpers\<close>

lemma static_types_length: "static_types T args = Inr ts \<Longrightarrow> length ts = length args"
  by (induction args arbitrary: ts) (auto split: sum.splits)

lemma static_types_nth:
  "static_types T args = Inr ts \<Longrightarrow> i < length args \<Longrightarrow> static_type T (args ! i) = Inr (ts ! i)"
proof (induction args arbitrary: ts i)
  case Nil
  then show ?case by simp
next
  case (Cons a as)
  then show ?case by (cases i) (auto split: sum.splits)
qed

lemma check_arg_types_first_mismatch:
  assumes types: "static_types T args = Inr ts"
    and n: "n \<le> length args" "n \<le> length expected"
    and bad: "i < n" "\<not> is_subtype_of T (ts ! i) (expected ! i)"
  shows "k \<le> i \<Longrightarrow> (\<forall>j. k \<le> j \<and> j < i \<longrightarrow> is_subtype_of T (ts ! j) (expected ! j)) \<Longrightarrow>
    check_arg_types T args expected err [k ..< n] = Inl err"
proof (induction "i - k" arbitrary: k)
  case 0
  then have "k = i" by simp
  with bad n have "[k ..< n] = i # [Suc i ..< n]" by (simp add: upt_conv_Cons)
  moreover have "static_type T (args ! i) = Inr (ts ! i)"
    using types bad n by (simp add: static_types_nth)
  ultimately show ?case using bad n by simp
next
  case (Suc d)
  then have k: "k < i" "Suc k \<le> i" "d = i - Suc k" by simp_all
  with bad n have "[k ..< n] = k # [Suc k ..< n]" by (simp add: upt_conv_Cons)
  moreover have "static_type T (args ! k) = Inr (ts ! k)"
    using types bad n k by (simp add: static_types_nth)
  moreover have "is_subtype_of T (ts ! k) (expected ! k)"
    using Suc.prems k by simp
  moreover have "check_arg_types T args expected err [Suc k ..< n] = Inl err"
    using Suc.hyps(1) [OF k(3) k(2)] Suc.prems by simp
  ultimately show ?case using bad n k by simp
qed

lemma check_arg_types_all_ok:
  assumes types: "static_types T args = Inr ts"
    and n: "n \<le> length args" "n \<le> length expected"
  shows "(\<forall>j. k \<le> j \<and> j < n \<longrightarrow> is_subtype_of T (ts ! j) (expected ! j)) \<Longrightarrow>
    check_arg_types T args expected err [k ..< n] = Inr ()"
proof (induction "n - k" arbitrary: k)
  case 0
  then show ?case by simp
next
  case (Suc d)
  then have k: "k < n" "d = n - Suc k" by simp_all
  then have "[k ..< n] = k # [Suc k ..< n]" by (simp add: upt_conv_Cons)
  moreover have "static_type T (args ! k) = Inr (ts ! k)"
    using types n k by (simp add: static_types_nth)
  moreover have "is_subtype_of T (ts ! k) (expected ! k)"
    using Suc.prems k by simp
  moreover have "check_arg_types T args expected err [Suc k ..< n] = Inr ()"
    using Suc.hyps(1) [OF k(2)] Suc.prems by simp
  ultimately show ?case using n k by simp
qed

lemma check_each_first_failure:
  "i < length args \<Longrightarrow> check_types T (args ! i) = Inl e \<Longrightarrow>
   (\<forall>j<i. check_types T (args ! j) = Inr ()) \<Longrightarrow> check_each T args = Inl e"
proof (induction args arbitrary: i)
  case Nil
  then show ?case by simp
next
  case (Cons a as)
  show ?case
  proof (cases i)
    case 0
    with Cons.prems show ?thesis by simp
  next
    case (Suc k)
    with Cons.prems have "check_types T a = Inr ()" by auto
    moreover have "\<forall>j<k. check_types T (as ! j) = Inr ()"
    proof (intro allI impI)
      fix j assume "j < k"
      then have "Suc j < i" using Suc by simp
      with Cons.prems(3) have "check_types T ((a # as) ! Suc j) = Inr ()" by blast
      then show "check_types T (as ! j) = Inr ()" by simp
    qed
    then have "check_each T as = Inl e"
      using Cons.IH [of k] Cons.prems Suc by simp
    ultimately show ?thesis by simp
  qed
qed

lemma check_each_all_ok:
  "(\<forall>j<length args. check_types T (args ! j) = Inr ()) \<Longrightarrow> check_each T args = Inr ()"
proof (induction args)
  case Nil
  then show ?case by simp
next
  case (Cons a as)
  then have "check_types T a = Inr ()" by auto
  moreover have "\<forall>j<length as. check_types T (as ! j) = Inr ()"
  proof (intro allI impI)
    fix j assume "j < length as"
    then have "Suc j < length (a # as)" by simp
    with Cons.prems have "check_types T ((a # as) ! Suc j) = Inr ()" by blast
    then show "check_types T (as ! j) = Inr ()" by simp
  qed
  then have "check_each T as = Inr ()" using Cons.IH by simp
  ultimately show ?case by simp
qed

lemma method_call_checked_static_type:
  assumes "check_method_call T receiver mname args = Inr ()"
  shows "\<exists>t. static_type T (MethodCall receiver mname args) = Inr t"
  using assms by (auto simp: check_method_call_def split: sum.splits if_splits)

lemma checked_static_type:
  "check_types T e = Inr () \<Longrightarrow> \<exists>t. static_type T e = Inr t"
  "check_each T es = Inr () \<Longrightarrow> \<exists>ts. static_types T es = Inr ts"
proof (induction T e and T es rule: check_types_check_each.induct)
  case (3 T receiver mname args)
  then have "check_method_call T receiver mname args = Inr ()"
    by (auto split: sum.splits)
  then show ?case by (rule method_call_checked_static_type)
next
  case (6 T a as)
  then show ?case by (auto split: sum.splits)
qed simp_all


lemmas sample_simps = sample_def is_subtype_of_def is_reference_type_def method_named_def
  names_def NullLiteral_def


lemma find_method_None:
  "find_method tbl ts n = None \<longleftrightarrow> (\<forall>u \<in> set ts. tbl u n = None)"
  by (induction ts) (auto split: option.splits)

lemma method_named_error:
  "method_named T t n = Inl e \<Longrightarrow> \<exists>msg. e = JavaTypeError msg"
  by (auto simp: method_named_def split: option.splits)

lemma static_type_error:
  "static_type T x = Inl e \<Longrightarrow> \<exists>msg. e = JavaTypeError msg"
  by (induction T x rule: static_type.induct)
    (auto split: sum.splits dest: method_named_error)

lemma static_types_error:
  "static_types T xs = Inl e \<Longrightarrow> \<exists>msg. e = JavaTypeError msg"
  by (induction xs) (auto split: sum.splits dest: static_type_error)

lemma check_arg_types_attribute_error:
  "check_arg_types T args expected err idxs = Inl AttributeError \<Longrightarrow> err = AttributeError"
  by (induction idxs) (auto split: if_splits sum.splits dest: static_type_error)

lemma constructor_mismatch_error:
  "\<exists>msg. constructor_mismatch T t expected args = JavaTypeError msg"
  by (auto simp: constructor_mismatch_def split: sum.splits dest: static_types_error)

subsection \<open>Runs on a store\<close>

lemma read_only_attr: "read_only (attr field self)"
  by (simp add: read_only_def attr_def)

lemma read_only_return_value: "read_only (return_value x)"
  by (simp add: read_only_def return_value_def)

lemma read_only_raise: "read_only (raise e)"
  by (simp add: read_only_def raise_def)

lemma read_only_of_result: "read_only (of_result r)"
  by (simp add: read_only_def of_result_def)

lemma read_only_and_then:
  assumes "read_only m" and "\<And>x. read_only (f x)"
  shows "read_only (and_then m f)"
proof (unfold read_only_def, intro allI)
  fix h
  obtain r h' where mh: "m h = (r, h')" by (cases "m h")
  from assms(1) have "snd (m h) = h" by (simp add: read_only_def)
  with mh have h': "h' = h" by simp
  show "snd (and_then m f h) = h"
  proof (cases r)
    case None
    with mh h' show ?thesis by (simp add: and_then_def)
  next
    case (Some res)
    show ?thesis
    proof (cases res)
      case (Inl e)
      with mh h' Some show ?thesis by (simp add: and_then_def)
    next
      case (Inr x)
      from assms(2) [of x] have "snd (f x h) = h" by (simp add: read_only_def)
      with mh h' Some Inr show ?thesis by (simp add: and_then_def)
    qed
  qed
qed

lemma read_only_if:
  "read_only m \<Longrightarrow> read_only n \<Longrightarrow> read_only (if c then m else n)"
  by simp

lemmas read_only_intros = read_only_and_then read_only_attr read_only_return_value
  read_only_raise read_only_of_result read_only_if

lemma read_only_for_each:
  assumes "\<And>a. read_only (body a)"
  shows "read_only (for_each body as)"
proof (induction as)
  case Nil
  have "for_each body [] = return_value ()" by (rule ext) simp
  then show ?case by (simp add: read_only_return_value)
next
  case (Cons a as)
  have "for_each body (a # as) = and_then (body a) (\<lambda>u. for_each body as)"
    by (rule ext) simp
  with Cons assms show ?case by (simp add: read_only_and_then)
qed

lemma read_only_collect:
  assumes "\<And>a. read_only (elem a)"
  shows "read_only (collect elem as)"
proof (induction as)
  case Nil
  have "collect elem [] = return_value []" by (rule ext) simp
  then show ?case by (simp add: read_only_return_value)
next
  case (Cons a as)
  have "collect elem (a # as) =
      and_then (elem a) (\<lambda>x. and_then (collect elem as) (\<lambda>xs. return_value (x # xs)))"
    by (rule ext) simp
  with Cons assms show ?case by (simp add: read_only_and_then read_only_return_value)
qed

lemma read_only_arg_types_run:
  assumes "\<And>a. read_only (st a)" and "read_only mismatch"
  shows "read_only (arg_types_run T st self expected mismatch idxs)"
proof (induction idxs)
  case Nil
  have "arg_types_run T st self expected mismatch [] = return_value ()" by (rule ext) simp
  then show ?case by (simp add: read_only_return_value)
next
  case (Cons i idxs)
  have "arg_types_run T st self expected mismatch (i # idxs) =
      and_then (attr get_args self) (\<lambda>args.
        if i < length args then
          and_then (st (args ! i)) (\<lambda>t.
            if i < length expected then
              (if \<not> is_subtype_of T t (expected ! i) then mismatch
               else arg_types_run T st self expected mismatch idxs)
            else raise IndexError)
        else raise IndexError)"
    by (rule ext) simp
  with Cons assms show ?case by (auto intro!: read_only_intros)
qed

lemma read_only_method_mismatch_run:
  assumes "\<And>a. read_only (st a)"
  shows "read_only (method_mismatch_run T st self expected)"
  unfolding method_mismatch_run_def
  by (intro read_only_intros read_only_collect assms)

lemma read_only_constructor_mismatch_run:
  assumes "\<And>a. read_only (st a)"
  shows "read_only (constructor_mismatch_run T st self expected)"
  unfolding constructor_mismatch_run_def
  by (intro read_only_intros read_only_collect assms)

lemma read_only_check_method_call_run:
  assumes "\<And>a. read_only (st a)"
  shows "read_only (check_method_call_run T st self)"
  unfolding check_method_call_run_def Let_def
  by (intro read_only_intros read_only_arg_types_run read_only_method_mismatch_run assms)

lemma read_only_check_constructor_call_run:
  assumes "\<And>a. read_only (st a)"
  shows "read_only (check_constructor_call_run T st self)"
  unfolding check_constructor_call_run_def Let_def
  by (auto intro!: read_only_intros read_only_arg_types_run
      read_only_constructor_mismatch_run assms split: option.splits)

lemma read_only_static_type_run: "read_only (static_type_run depth T self)"
proof (induction depth arbitrary: self)
  case 0
  show ?case by (simp add: read_only_def)
next
  case (Suc depth)
  have sub: "\<And>r. read_only (\<lambda>h'. static_type_run depth T r h')"
    using Suc by simp
  show ?case
  proof (unfold read_only_def, intro allI)
    fix h
    have call: "read_only
        (and_then (attr get_receiver self) (\<lambda>receiver.
         and_then (\<lambda>h'. static_type_run depth T receiver h') (\<lambda>receiver_type.
         and_then (attr get_method_name self) (\<lambda>mname.
         and_then (of_result (method_named T receiver_type mname)) (\<lambda>m.
           return_value (return_type m))))))"
      by (intro read_only_intros sub)
    show "snd (static_type_run (Suc depth) T self h) = h"
    proof (cases "h self")
      case (MethodCallObj r m as)
      with call show ?thesis by (simp add: read_only_def)
    qed (simp_all add: attr_def)
  qed
qed

lemma read_only_check_types_run: "read_only (check_types_run depth T self)"
proof (induction depth arbitrary: self)
  case 0
  show ?case by (simp add: read_only_def)
next
  case (Suc depth)
  have sub: "\<And>a. read_only (\<lambda>h'. check_types_run depth T a h')"
    using Suc by simp
  have each: "\<And>args. read_only (for_each (\<lambda>arg h'. check_types_run depth T arg h') args)"
    by (rule read_only_for_each) (rule sub)
  have m: "read_only
      (and_then (attr get_receiver self) (\<lambda>receiver.
       and_then (\<lambda>h'. check_types_run depth T receiver h') (\<lambda>u.
       and_then (attr get_args self) (\<lambda>args.
       and_then (for_each (\<lambda>arg h'. check_types_run depth T arg h') args) (\<lambda>u.
         check_method_call_run T (static_type_run depth T) self)))))"
    by (intro read_only_intros sub each read_only_check_method_call_run
        read_only_static_type_run)
  have c: "read_only
      (and_then (attr get_args self) (\<lambda>args.
       and_then (for_each (\<lambda>arg h'. check_types_run depth T arg h') args) (\<lambda>u.
         check_constructor_call_run T (static_type_run depth T) self)))"
    by (intro read_only_intros each read_only_check_constructor_call_run
        read_only_static_type_run)
  show ?case
  proof (unfold read_only_def, intro allI)
    fix h
    show "snd (check_types_run (Suc depth) T self h) = h"
    proof (cases "h self")
      case (MethodCallObj r mn as)
      with m show ?thesis by (simp add: read_only_def)
    next
      case (ConstructorCallObj t as)
      with c show ?thesis by (simp add: read_only_def)
    qed (simp_all add: return_value_def)
  qed
qed

lemmas run_defs = and_then_def attr_def return_value_def raise_def of_result_def

lemma load_all_length: "load_all d h as = Some es \<Longrightarrow> length es = length as"
  by (induction as arbitrary: es) (auto split: option.splits)

lemma load_all_nth:
  "load_all d h as = Some es \<Longrightarrow> i < length as \<Longrightarrow> load d h (as ! i) = Some (es ! i)"
proof (induction as arbitrary: es i)
  case Nil
  then show ?case by simp
next
  case (Cons a as)
  then show ?case by (cases i) (auto split: option.splits)
qed

lemma static_type_run_load:
  "load d h a = Some e \<Longrightarrow> static_type_run d T a h = (Some (static_type T e), h)"
proof (induction d arbitrary: a e)
  case 0
  then show ?case by simp
next
  case (Suc d)
  show ?case
  proof (cases "h a")
    case (MethodCallObj r m as)
    with Suc.prems obtain re es where l: "load d h r = Some re" "load_all d h as = Some es"
      and e: "e = MethodCall re m es"
      by (auto split: option.splits)
    from Suc.IH [OF l(1)] have "static_type_run d T r h = (Some (static_type T re), h)" .
    with MethodCallObj e show ?thesis
      by (simp add: run_defs split: sum.splits)
  qed (use Suc.prems in \<open>auto simp: run_defs split: option.splits\<close>)
qed

lemma collect_load:
  assumes st: "\<And>a e. load d h a = Some e \<Longrightarrow> st a h = (Some (static_type T e), h)"
  shows "load_all d h as = Some es \<Longrightarrow> collect st as h = (Some (static_types T es), h)"
proof (induction as arbitrary: es)
  case Nil
  then show ?case by (simp add: run_defs)
next
  case (Cons a as)
  then obtain x xs where l: "load d h a = Some x" "load_all d h as = Some xs"
    and es: "es = x # xs"
    by (auto split: option.splits)
  from st [OF l(1)] Cons.IH [OF l(2)] es show ?case
    by (simp add: run_defs split: sum.splits)
qed

lemma for_each_load:
  assumes chk: "\<And>a e. load d h a = Some e \<Longrightarrow> chk a h = (Some (check_types T e), h)"
  shows "load_all d h as = Some es \<Longrightarrow> for_each chk as h = (Some (check_each T es), h)"
proof (induction as arbitrary: es)
  case Nil
  then show ?case by (simp add: run_defs)
next
  case (Cons a as)
  then obtain x xs where l: "load d h a = Some x" "load_all d h as = Some xs"
    and es: "es = x # xs"
    by (auto split: option.splits)
  from chk [OF l(1)] Cons.IH [OF l(2)] es show ?case
    by (simp add: run_defs split: sum.splits)
qed

lemma arg_types_run_load:
  assumes st: "\<And>a e. load d h a = Some e \<Longrightarrow> st a h = (Some (static_type T e), h)"
    and args: "get_args (h self) = Inr as" "load_all d h as = Some es"
    and mismatch: "mismatch h = (Some (Inl err), h)"
  shows "arg_types_run T st self expected mismatch idxs h =
    (Some (check_arg_types T es expected err idxs), h)"
proof (induction idxs)
  case Nil
  show ?case by (simp add: run_defs)
next
  case (Cons i idxs)
  have len: "length es = length as" using args(2) by (rule load_all_length)
  show ?case
  proof (cases "i < length as")
    case True
    from load_all_nth [OF args(2) True] have "load d h (as ! i) = Some (es ! i)" .
    from st [OF this] have "st (as ! i) h = (Some (static_type T (es ! i)), h)" .
    with True len args(1) mismatch Cons show ?thesis
      by (simp add: run_defs split: sum.splits)
  next
    case False
    with len args(1) show ?thesis by (simp add: run_defs)
  qed
qed

lemma method_mismatch_run_load:
  assumes st: "\<And>a e. load d h a = Some e \<Longrightarrow> st a h = (Some (static_type T e), h)"
    and self: "h self = MethodCallObj r m as"
    and l: "load d h r = Some re" "load_all d h as = Some es"
  shows "method_mismatch_run T st self expected h =
    (Some (Inl (method_mismatch T re m expected es)), h)"
proof -
  have "collect st as h = (Some (static_types T es), h)"
    by (rule collect_load [where d = d and h = h and st = st and T = T]) (rule st, assumption, rule l(2))
  with st [OF l(1)] self show ?thesis
    by (simp add: method_mismatch_run_def method_mismatch_def run_defs split: sum.splits)
qed

lemma constructor_mismatch_run_load:
  assumes st: "\<And>a e. load d h a = Some e \<Longrightarrow> st a h = (Some (static_type T e), h)"
    and self: "h self = ConstructorCallObj t as"
    and l: "load_all d h as = Some es"
  shows "constructor_mismatch_run T st self expected h =
    (Some (Inl (constructor_mismatch T t expected es)), h)"
proof -
  have "collect st as h = (Some (static_types T es), h)"
    by (rule collect_load [where d = d and h = h and st = st and T = T]) (rule st, assumption, rule l)
  with self show ?thesis
    by (simp add: constructor_mismatch_run_def constructor_mismatch_def run_defs
        split: sum.splits)
qed

lemma check_method_call_run_load:
  assumes st: "\<And>a e. load d h a = Some e \<Longrightarrow> st a h = (Some (static_type T e), h)"
    and self: "h self = MethodCallObj r m as"
    and l: "load d h r = Some re" "load_all d h as = Some es"
  shows "check_method_call_run T st self h = (Some (check_method_call T re m es), h)"
proof -
  have len: "length es = length as" using l(2) by (rule load_all_length)
  have args: "get_args (h self) = Inr as" using self by simp
  have loop: "\<And>expected idxs. arg_types_run T st self expected
      (method_mismatch_run T st self expected) idxs h =
      (Some (check_arg_types T es expected (method_mismatch T re m expected es) idxs), h)"
    by (rule arg_types_run_load [where d = d and h = h and st = st and self = self and as = as],
        rule st, assumption, rule args, rule l(2),
        rule method_mismatch_run_load [where d = d and h = h and st = st and r = r and as = as],
        rule st, assumption, rule self, rule l(1), rule l(2))
  show ?thesis
    using st [OF l(1)] self len loop
    by (simp add: check_method_call_run_def check_method_call_def run_defs Let_def
        split: sum.splits)
qed

lemma check_constructor_call_run_load:
  assumes st: "\<And>a e. load d h a = Some e \<Longrightarrow> st a h = (Some (static_type T e), h)"
    and self: "h self = ConstructorCallObj t as"
    and l: "load_all d h as = Some es"
  shows "check_constructor_call_run T st self h = (Some (check_constructor_call T t es), h)"
proof -
  have len: "length es = length as" using l by (rule load_all_length)
  have args: "get_args (h self) = Inr as" using self by simp
  have loop: "\<And>expected idxs. arg_types_run T st self expected
      (constructor_mismatch_run T st self expected) idxs h =
      (Some (check_arg_types T es expected (constructor_mismatch T t expected es) idxs), h)"
    by (rule arg_types_run_load [where d = d and h = h and st = st and self = self and as = as],
        rule st, assumption, rule args, rule l,
        rule constructor_mismatch_run_load [where d = d and h = h and st = st and as = as],
        rule st, assumption, rule self, rule l)
  show ?thesis
    using self len loop
    by (simp add: check_constructor_call_run_def check_constructor_call_def run_defs Let_def
        split: option.splits)
qed

lemma check_types_run_load:
  "load d h a = Some e \<Longrightarrow> check_types_run d T a h = (Some (check_types T e), h)"
proof (induction d arbitrary: a e)
  case 0
  then show ?case by simp
next
  case (Suc d)
  have st: "\<And>a e. load d h a = Some e \<Longrightarrow> static_type_run d T a h = (Some (static_type T e), h)"
    by (rule static_type_run_load)
  have chk: "\<And>a e. load d h a = Some e \<Longrightarrow>
      (\<lambda>arg h'. check_types_run d T arg h') a h = (Some (check_types T e), h)"
    using Suc.IH by simp
  show ?case
  proof (cases "h a")
    case (MethodCallObj r m as)
    with Suc.prems obtain re es where l: "load d h r = Some re" "load_all d h as = Some es"
      and e: "e = MethodCall re m es"
      by (auto split: option.splits)
    have own: "check_method_call_run T (static_type_run d T) a h =
        (Some (check_method_call T re m es), h)"
      by (rule check_method_call_run_load [where d = d and h = h and r = r and as = as],
          rule st, assumption, rule MethodCallObj, rule l(1), rule l(2))
    have each: "for_each (\<lambda>arg h'. check_types_run d T arg h') as h =
        (Some (check_each T es), h)"
      by (rule for_each_load [where d = d and h = h], rule chk, assumption, rule l(2))
    from Suc.IH [OF l(1)] own each MethodCallObj e show ?thesis
      by (simp add: run_defs split: sum.splits)
  next
    case (ConstructorCallObj t as)
    with Suc.prems obtain es where l: "load_all d h as = Some es"
      and e: "e = ConstructorCall t es"
      by (auto split: option.splits)
    have own: "check_constructor_call_run T (static_type_run d T) a h =
        (Some (check_constructor_call T t es), h)"
      by (rule check_constructor_call_run_load [where d = d and h = h and as = as],
          rule st, assumption, rule ConstructorCallObj, rule l)
    have each: "for_each (\<lambda>arg h'. check_types_run d T arg h') as h =
        (Some (check_each T es), h)"
      by (rule for_each_load [where d = d and h = h], rule chk, assumption, rule l)
    from own each ConstructorCallObj e show ?thesis
      by (simp add: run_defs split: sum.splits)
  qed (use Suc.prems in \<open>auto simp: run_defs\<close>)
qed

section \<open>Leaves\<close>

text \<open>C8. \<^verbatim>\<open>check_types\<close> returns normally on every \<^verbatim>\<open>Variable\<close> and every \<^verbatim>\<open>Literal\<close>,
  whatever its name, value or bound type, and so on the null literal, which is nothing
  but the literal \<^verbatim>\<open>"null"\<close> bound to the null type.\<close>

theorem leaves_always_pass:
  "check_types T (Variable n t) = Inr () \<and> check_types T (Literal v t) = Inr () \<and>
   check_types T (NullLiteral T) = Inr () \<and> NullLiteral T = Literal ''null'' (type_null T)"
  by (simp add: NullLiteral_def)

section \<open>Static types\<close>

text \<open>C7. The static type of a variable is its declared type, that of a literal (the
  null literal included) its bound type, that of a constructor call the instantiated
  type, and that of a method call the return type of the method that \<^verbatim>\<open>method_named\<close>
  finds for the static type of the receiver; a failure of the receiver's static type or
  of \<^verbatim>\<open>method_named\<close> is the failure of the call's static type.\<close>

theorem static_type_values:
  "static_type T (Variable n t) = Inr t \<and>
   static_type T (Literal v t) = Inr t \<and>
   static_type T (NullLiteral T) = Inr (type_null T) \<and>
   static_type T (ConstructorCall t args) = Inr t \<and>
   (static_type T receiver = Inr rt \<and> method_named T rt mname = Inr m \<longrightarrow>
      static_type T (MethodCall receiver mname args) = Inr (return_type m)) \<and>
   (static_type T receiver = Inr rt \<and> method_named T rt mname = Inl e \<longrightarrow>
      static_type T (MethodCall receiver mname args) = Inl e) \<and>
   (static_type T receiver = Inl e \<longrightarrow>
      static_type T (MethodCall receiver mname args) = Inl e)"
  by (simp add: NullLiteral_def)

theorem static_type_values_witness:
  "static_type sample (MethodCall (Variable ''x'' TObject) ''toString'' []) = Inr TObject \<and>
   static_type sample (MethodCall (Variable ''x'' TObject) ''getZ'' []) =
     Inl (JavaTypeError ''Object has no method named getZ'') \<and>
   static_type sample (MethodCall (MethodCall (Variable ''x'' TObject) ''getZ'' []) ''toString'' []) =
     Inl (JavaTypeError ''Object has no method named getZ'')"
  using static_type_values [where T = sample and receiver = "Variable ''x'' TObject"
      and rt = TObject and mname = "''toString''" and args = "[]"
      and m = "\<lparr>method_name = ''toString'', argument_types = [], return_type = TObject\<rparr>"]
    static_type_values [where T = sample and receiver = "Variable ''x'' TObject"
      and rt = TObject and mname = "''getZ''" and args = "[]"
      and e = "JavaTypeError ''Object has no method named getZ''"]
    static_type_values [where T = sample
      and receiver = "MethodCall (Variable ''x'' TObject) ''getZ'' []"
      and mname = "''toString''" and args = "[]"
      and e = "JavaTypeError ''Object has no method named getZ''"]
  by (simp add: sample_simps)

section \<open>The order of the walk\<close>

text \<open>C3. \<^verbatim>\<open>check_types\<close> of a method call checks the receiver, then the arguments
  from left to right, and only then the call itself: an error of the receiver is the
  result; with a passing receiver, the error of the first failing argument is the
  result; with all children passing, the result is that of the call's own constraints.
  \<^verbatim>\<open>check_types\<close> of a constructor call does the same with its arguments.\<close>

theorem children_checked_first:
  "(check_types T receiver = Inl e \<longrightarrow>
      check_types T (MethodCall receiver mname args) = Inl e) \<and>
   (check_types T receiver = Inr () \<and> i < length args \<and> check_types T (args ! i) = Inl e \<and>
    (\<forall>j<i. check_types T (args ! j) = Inr ()) \<longrightarrow>
      check_types T (MethodCall receiver mname args) = Inl e) \<and>
   (check_types T receiver = Inr () \<and> (\<forall>j<length args. check_types T (args ! j) = Inr ()) \<longrightarrow>
      check_types T (MethodCall receiver mname args) = check_method_call T receiver mname args) \<and>
   (i < length args \<and> check_types T (args ! i) = Inl e \<and>
    (\<forall>j<i. check_types T (args ! j) = Inr ()) \<longrightarrow>
      check_types T (ConstructorCall t args) = Inl e) \<and>
   ((\<forall>j<length args. check_types T (args ! j) = Inr ()) \<longrightarrow>
      check_types T (ConstructorCall t args) = check_constructor_call T t args)"
proof (intro conjI impI)
  assume "check_types T receiver = Inl e"
  then show "check_types T (MethodCall receiver mname args) = Inl e" by simp
next
  assume a: "check_types T receiver = Inr () \<and> i < length args \<and>
    check_types T (args ! i) = Inl e \<and> (\<forall>j<i. check_types T (args ! j) = Inr ())"
  then have "check_each T args = Inl e"
    using check_each_first_failure [of i args T e] by blast
  with a show "check_types T (MethodCall receiver mname args) = Inl e" by simp
next
  assume a: "check_types T receiver = Inr () \<and>
    (\<forall>j<length args. check_types T (args ! j) = Inr ())"
  then have "check_each T args = Inr ()"
    using check_each_all_ok [of args T] by blast
  with a show "check_types T (MethodCall receiver mname args) =
    check_method_call T receiver mname args" by simp
next
  assume "i < length args \<and> check_types T (args ! i) = Inl e \<and>
    (\<forall>j<i. check_types T (args ! j) = Inr ())"
  then have "check_each T args = Inl e"
    using check_each_first_failure [of i args T e] by blast
  then show "check_types T (ConstructorCall t args) = Inl e" by simp
next
  assume "\<forall>j<length args. check_types T (args ! j) = Inr ()"
  then have "check_each T args = Inr ()"
    using check_each_all_ok [of args T] by blast
  then show "check_types T (ConstructorCall t args) = check_constructor_call T t args" by simp
qed

theorem children_checked_first_witness:
  "check_types sample (MethodCall (MethodCall (Literal ''5'' TInt) ''foo'' []) ''bark'' []) =
     Inl (JavaTypeError ''Type int does not have methods'') \<and>
   check_types sample (MethodCall (Variable ''d'' TDog) ''getZ''
       [Literal ''5'' TInt, ConstructorCall TObject [], MethodCall (Literal ''5'' TInt) ''foo'' []]) =
     Inl (JavaTypeError ''Type Object is not instantiable'') \<and>
   check_types sample (ConstructorCall TInt [Variable ''d'' TDog, ConstructorCall TObject []]) =
     Inl (JavaTypeError ''Type Object is not instantiable'') \<and>
   check_types sample (MethodCall (Variable ''d'' TDog) ''getZ'' [Literal ''5'' TInt]) =
     check_method_call sample (Variable ''d'' TDog) ''getZ'' [Literal ''5'' TInt] \<and>
   check_types sample (ConstructorCall TInt [Variable ''d'' TDog]) =
     check_constructor_call sample TInt [Variable ''d'' TDog]"
  using children_checked_first [where T = sample
      and receiver = "MethodCall (Literal ''5'' TInt) ''foo'' []" and mname = "''bark''"
      and args = "[]" and e = "JavaTypeError ''Type int does not have methods''"]
    children_checked_first [where T = sample and receiver = "Variable ''d'' TDog"
      and mname = "''getZ''" and i = 1 and t = TInt
      and args = "[Literal ''5'' TInt, ConstructorCall TObject [],
        MethodCall (Literal ''5'' TInt) ''foo'' []]"
      and e = "JavaTypeError ''Type Object is not instantiable''"]
    children_checked_first [where T = sample and receiver = "Variable ''d'' TDog"
      and mname = "''getZ''" and i = 1 and t = TInt
      and args = "[Variable ''d'' TDog, ConstructorCall TObject []]"
      and e = "JavaTypeError ''Type Object is not instantiable''"]
    children_checked_first [where T = sample and receiver = "Variable ''d'' TDog"
      and mname = "''getZ''" and args = "[Literal ''5'' TInt]"]
    children_checked_first [where T = sample and t = TInt and args = "[Variable ''d'' TDog]"]
  by (simp add: sample_simps check_method_call_def check_constructor_call_def)

section \<open>Method resolution\<close>

text \<open>\<open>Dog\<close> passes the check against the root reference type and no type of its chain
  declares \<open>getZ\<close>, yet a call of \<open>getZ\<close> on a \<open>Dog\<close> variable whose argument is the
  construction of the non-instantiable \<open>Object\<close> ends in the argument's error: the
  arguments are checked before the method is resolved.\<close>

theorem unresolved_method_counterexample:
  "static_type sample (Variable ''d'' TDog) = Inr TDog \<and>
   is_subtype_of sample TDog (type_object sample) \<and>
   find_method (methods sample) (TDog # supertypes sample TDog) ''getZ'' = None \<and>
   check_types sample (MethodCall (Variable ''d'' TDog) ''getZ'' [ConstructorCall TObject []]) =
     Inl (JavaTypeError ''Type Object is not instantiable'') \<and>
   check_types sample (MethodCall (Variable ''d'' TDog) ''getZ'' [ConstructorCall TObject []]) \<noteq>
     Inl (JavaTypeError (no_method_message sample TDog ''getZ''))"
  by (simp add: sample_simps check_constructor_call_def)

text \<open>C2. When the children of a method call pass their checks and the static type of
  the receiver passes the check against the root reference type, but neither that type
  nor any type of its supertype chain has the called name in its method table, then
  \<^verbatim>\<open>check_types\<close> ends in the type error that \<^verbatim>\<open>method_named\<close> raises, whatever the
  number and the types of the arguments.\<close>

theorem unresolved_method_is_type_error:
  assumes "check_types T receiver = Inr ()" and "check_each T args = Inr ()"
    and "static_type T receiver = Inr rt"
    and "is_subtype_of T rt (type_object T)"
    and "\<forall>u \<in> set (rt # supertypes T rt). methods T u mname = None"
  shows "check_types T (MethodCall receiver mname args) =
    Inl (JavaTypeError (no_method_message T rt mname))"
proof -
  have "find_method (methods T) (rt # supertypes T rt) mname = None"
    using assms(5) by (simp only: find_method_None)
  then have "method_named T rt mname = Inl (JavaTypeError (no_method_message T rt mname))"
    by (simp add: method_named_def)
  then have "check_method_call T receiver mname args =
      Inl (JavaTypeError (no_method_message T rt mname))"
    using assms(3,4) by (simp add: check_method_call_def)
  then show ?thesis using assms(1,2) by simp
qed

theorem unresolved_method_is_type_error_witness:
  "check_types sample (MethodCall (Variable ''x'' TObject) ''getZ'' [Literal ''5'' TInt]) =
     Inl (JavaTypeError ''Object has no method named getZ'') \<and>
   check_types sample (MethodCall (ConstructorCall TDog []) ''getZ'' []) =
     Inl (JavaTypeError ''Dog has no method named getZ'')"
  using unresolved_method_is_type_error [where T = sample and receiver = "Variable ''x'' TObject"
      and rt = TObject and mname = "''getZ''" and args = "[Literal ''5'' TInt]"]
    unresolved_method_is_type_error [where T = sample and receiver = "ConstructorCall TDog []"
      and rt = TDog and mname = "''getZ''" and args = "[]"]
  by (simp add: sample_simps check_constructor_call_def)

section \<open>Argument types\<close>

text \<open>C1. When the receiver and the arguments of a method call pass their checks, the
  receiver's type has methods, the method is resolved and the number of arguments is
  the declared one, then at the first index \<open>i\<close> at which the static type of the argument
  is not a subtype of the declared parameter type, \<^verbatim>\<open>check_types\<close> raises the type error
  whose message names the receiver type, the method name, all the declared parameter
  types and the static types of all the arguments; nothing is assumed of the arguments
  after \<open>i\<close>. The same holds of a constructor call of an instantiable type, with the
  instantiated type in place of receiver type and method name.\<close>

theorem first_mismatch_reported:
  "(check_types T receiver = Inr () \<and> check_each T args = Inr () \<and>
    static_type T receiver = Inr rt \<and> is_subtype_of T rt (type_object T) \<and>
    method_named T rt mname = Inr m \<and> length (argument_types m) = length args \<and>
    static_types T args = Inr actual \<and> i < length args \<and>
    \<not> is_subtype_of T (actual ! i) (argument_types m ! i) \<and>
    (\<forall>j<i. is_subtype_of T (actual ! j) (argument_types m ! j)) \<longrightarrow>
      check_types T (MethodCall receiver mname args) =
        Inl (JavaTypeError (name T rt @ ''.'' @ mname @ ''() expects arguments of type '' @
          names T (argument_types m) @ '', but got '' @ names T actual))) \<and>
   (check_each T args = Inr () \<and> is_instantiable T t \<and> constructor T t = Some c \<and>
    length (constructor_argument_types c) = length args \<and>
    static_types T args = Inr actual \<and> i < length args \<and>
    \<not> is_subtype_of T (actual ! i) (constructor_argument_types c ! i) \<and>
    (\<forall>j<i. is_subtype_of T (actual ! j) (constructor_argument_types c ! j)) \<longrightarrow>
      check_types T (ConstructorCall t args) =
        Inl (JavaTypeError (name T t @ '' constructor expects arguments of type '' @
          names T (constructor_argument_types c) @ '', but got '' @ names T actual)))"
proof (intro conjI impI)
  let ?exp = "argument_types m"
  let ?err = "method_mismatch T receiver mname ?exp args"
  assume a: "check_types T receiver = Inr () \<and> check_each T args = Inr () \<and>
    static_type T receiver = Inr rt \<and> is_subtype_of T rt (type_object T) \<and>
    method_named T rt mname = Inr m \<and> length (argument_types m) = length args \<and>
    static_types T args = Inr actual \<and> i < length args \<and>
    \<not> is_subtype_of T (actual ! i) (argument_types m ! i) \<and>
    (\<forall>j<i. is_subtype_of T (actual ! j) (argument_types m ! j))"
  then have "check_arg_types T args ?exp ?err [0 ..< length ?exp] = Inl ?err"
    using check_arg_types_first_mismatch [of T args actual "length ?exp" ?exp i 0 ?err]
    by simp
  moreover have "?err = JavaTypeError (name T rt @ ''.'' @ mname @
      ''() expects arguments of type '' @ names T ?exp @ '', but got '' @ names T actual)"
    using a by (simp add: method_mismatch_def)
  ultimately have "check_method_call T receiver mname args =
      Inl (JavaTypeError (name T rt @ ''.'' @ mname @
        ''() expects arguments of type '' @ names T ?exp @ '', but got '' @ names T actual))"
    using a by (simp add: check_method_call_def)
  then show "check_types T (MethodCall receiver mname args) =
      Inl (JavaTypeError (name T rt @ ''.'' @ mname @ ''() expects arguments of type '' @
        names T (argument_types m) @ '', but got '' @ names T actual))"
    using a by simp
next
  let ?exp = "constructor_argument_types c"
  let ?err = "constructor_mismatch T t ?exp args"
  assume a: "check_each T args = Inr () \<and> is_instantiable T t \<and> constructor T t = Some c \<and>
    length (constructor_argument_types c) = length args \<and>
    static_types T args = Inr actual \<and> i < length args \<and>
    \<not> is_subtype_of T (actual ! i) (constructor_argument_types c ! i) \<and>
    (\<forall>j<i. is_subtype_of T (actual ! j) (constructor_argument_types c ! j))"
  then have "check_arg_types T args ?exp ?err [0 ..< length ?exp] = Inl ?err"
    using check_arg_types_first_mismatch [of T args actual "length ?exp" ?exp i 0 ?err]
    by simp
  moreover have "?err = JavaTypeError (name T t @
      '' constructor expects arguments of type '' @ names T ?exp @ '', but got '' @
      names T actual)"
    using a by (simp add: constructor_mismatch_def)
  ultimately have "check_constructor_call T t args =
      Inl (JavaTypeError (name T t @ '' constructor expects arguments of type '' @
        names T ?exp @ '', but got '' @ names T actual))"
    using a by (simp add: check_constructor_call_def)
  then show "check_types T (ConstructorCall t args) =
      Inl (JavaTypeError (name T t @ '' constructor expects arguments of type '' @
        names T (constructor_argument_types c) @ '', but got '' @ names T actual))"
    using a by simp
qed

theorem first_mismatch_reported_witness:
  "check_types sample (MethodCall (ConstructorCall TDog []) ''meet''
       [NullLiteral sample, Literal ''5'' TInt]) =
     Inl (JavaTypeError ''Dog.meet() expects arguments of type (Animal, Animal), but got (null, int)'') \<and>
   check_types sample (MethodCall (ConstructorCall TDog []) ''meet''
       [Literal ''5'' TInt, Variable ''v'' TVoid]) =
     Inl (JavaTypeError ''Dog.meet() expects arguments of type (Animal, Animal), but got (int, void)'') \<and>
   check_types sample (ConstructorCall TKennel [ConstructorCall TAnimal [], Literal ''5'' TInt]) =
     Inl (JavaTypeError ''Kennel constructor expects arguments of type (Dog, Animal), but got (Animal, int)'')"
  using first_mismatch_reported [where T = sample and receiver = "ConstructorCall TDog []"
      and rt = TDog and mname = "''meet''" and args = "[NullLiteral sample, Literal ''5'' TInt]"
      and m = "\<lparr>method_name = ''meet'', argument_types = [TAnimal, TAnimal], return_type = TVoid\<rparr>"
      and actual = "[TNull, TInt]" and i = 1, THEN conjunct1]
    first_mismatch_reported [where T = sample and receiver = "ConstructorCall TDog []"
      and rt = TDog and mname = "''meet''" and args = "[Literal ''5'' TInt, Variable ''v'' TVoid]"
      and m = "\<lparr>method_name = ''meet'', argument_types = [TAnimal, TAnimal], return_type = TVoid\<rparr>"
      and actual = "[TInt, TVoid]" and i = 0, THEN conjunct1]
    first_mismatch_reported [where T = sample and t = TKennel
      and args = "[ConstructorCall TAnimal [], Literal ''5'' TInt]"
      and c = "\<lparr>constructor_argument_types = [TDog, TAnimal]\<rparr>"
      and actual = "[TAnimal, TInt]" and i = 0, THEN conjunct2]
  by (simp add: sample_simps check_constructor_call_def)

section \<open>The receiver's capability\<close>

text \<open>The \<^verbatim>\<open>int\<close> literal has no methods, yet a call on it whose argument is the
  construction of the non-instantiable \<open>Object\<close> ends in the argument's error: the
  arguments are checked before the receiver's type is looked at.\<close>

theorem no_methods_counterexample:
  "static_type sample (Literal ''5'' TInt) = Inr TInt \<and>
   \<not> is_subtype_of sample TInt (type_object sample) \<and>
   check_types sample (MethodCall (Literal ''5'' TInt) ''foo'' [ConstructorCall TObject []]) =
     Inl (JavaTypeError ''Type Object is not instantiable'') \<and>
   check_types sample (MethodCall (Literal ''5'' TInt) ''foo'' [ConstructorCall TObject []]) \<noteq>
     Inl (JavaTypeError (''Type '' @ name sample TInt @ '' does not have methods''))"
  by (simp add: sample_simps check_constructor_call_def)

text \<open>C5. When the receiver and the arguments of a method call pass their own checks and
  the static type of the receiver is not a subtype of the root reference type, then
  \<^verbatim>\<open>check_types\<close> raises the type error saying that the type does not have methods and
  naming the receiver's static type. Nothing is assumed of the method name, of the
  number of arguments or of their types: the check comes before method resolution,
  arity and argument types.\<close>

theorem no_methods:
  assumes "check_types T receiver = Inr ()" and "check_each T args = Inr ()"
    and "static_type T receiver = Inr rt"
    and "\<not> is_subtype_of T rt (type_object T)"
  shows "check_types T (MethodCall receiver mname args) =
    Inl (JavaTypeError (''Type '' @ name T rt @ '' does not have methods''))"
  using assms by (simp add: check_method_call_def)

theorem no_methods_witness:
  "check_types sample (MethodCall (Literal ''5'' TInt) ''toString'' []) =
     Inl (JavaTypeError ''Type int does not have methods'') \<and>
   check_types sample (MethodCall (MethodCall (ConstructorCall TDog []) ''bark'' []) ''getZ''
       [NullLiteral sample]) =
     Inl (JavaTypeError ''Type void does not have methods'')"
  using no_methods [where T = sample and receiver = "Literal ''5'' TInt" and rt = TInt
      and mname = "''toString''" and args = "[]"]
    no_methods [where T = sample
      and receiver = "MethodCall (ConstructorCall TDog []) ''bark'' []" and rt = TVoid
      and mname = "''getZ''" and args = "[NullLiteral sample]"]
  by (simp add: sample_simps check_constructor_call_def check_method_call_def)

section \<open>Instantiability\<close>

text \<open>The construction of the non-instantiable \<open>Object\<close> from an argument that is itself
  ill-typed ends in the argument's error.\<close>

theorem not_instantiable_counterexample:
  "\<not> is_instantiable sample TObject \<and>
   check_types sample (ConstructorCall TObject [MethodCall (Literal ''5'' TInt) ''foo'' []]) =
     Inl (JavaTypeError ''Type int does not have methods'') \<and>
   check_types sample (ConstructorCall TObject [MethodCall (Literal ''5'' TInt) ''foo'' []]) \<noteq>
     Inl (JavaTypeError (''Type '' @ name sample TObject @ '' is not instantiable''))"
  by (simp add: sample_simps check_method_call_def)

text \<open>C6. When the arguments of a constructor call pass their own checks and the
  instantiated type is not instantiable, then \<^verbatim>\<open>check_types\<close> raises the type error saying
  that the type is not instantiable and naming it. Nothing is assumed of the constructor
  signature: it holds also when the arguments match the signature in count and types,
  the check coming before arity and argument types.\<close>

theorem not_instantiable:
  assumes "check_each T args = Inr ()" and "\<not> is_instantiable T t"
  shows "check_types T (ConstructorCall t args) =
    Inl (JavaTypeError (''Type '' @ name T t @ '' is not instantiable''))"
  using assms by (simp add: check_constructor_call_def)

theorem not_instantiable_witness:
  "constructor sample TObject = Some \<lparr>constructor_argument_types = []\<rparr> \<and>
   check_types sample (ConstructorCall TObject []) =
     Inl (JavaTypeError ''Type Object is not instantiable'') \<and>
   check_types sample (ConstructorCall TObject [Literal ''5'' TInt]) =
     Inl (JavaTypeError ''Type Object is not instantiable'')"
  using not_instantiable [where T = sample and t = TObject and args = "[]"]
    not_instantiable [where T = sample and t = TObject and args = "[Literal ''5'' TInt]"]
  by (simp add: sample_simps)

text \<open>A constructor call on \<open>void\<close>, which is not instantiable and carries no constructor
  signature, with an ill-typed argument ends in the argument's error.\<close>

theorem missing_constructor_counterexample:
  "\<not> is_instantiable sample TVoid \<and> constructor sample TVoid = None \<and>
   check_types sample (ConstructorCall TVoid [MethodCall (Literal ''5'' TInt) ''foo'' []]) =
     Inl (JavaTypeError ''Type int does not have methods'') \<and>
   check_types sample (ConstructorCall TVoid [MethodCall (Literal ''5'' TInt) ''foo'' []]) \<noteq>
     Inl (JavaTypeError (''Type '' @ name sample TVoid @ '' is not instantiable''))"
  by (simp add: sample_simps check_method_call_def)

text \<open>C10. The constructor signature is read only after the instantiability check has
  passed: on a type that is not instantiable the call's own validation ends in the
  error "not instantiable" whatever the constructor table holds; so a constructor call
  on a non-instantiable type without constructor signature, whose arguments pass their
  own checks, raises that error; and the call's own validation fails on the missing
  constructor only for a type that is instantiable.\<close>

theorem missing_constructor_unreachable:
  "(\<not> is_instantiable T t \<longrightarrow>
      check_constructor_call (T\<lparr>constructor := ctab\<rparr>) t args =
        Inl (JavaTypeError (''Type '' @ name T t @ '' is not instantiable''))) \<and>
   (check_each T args = Inr () \<and> \<not> is_instantiable T t \<and> constructor T t = None \<longrightarrow>
      check_types T (ConstructorCall t args) =
        Inl (JavaTypeError (''Type '' @ name T t @ '' is not instantiable''))) \<and>
   (check_constructor_call T t args = Inl AttributeError \<longrightarrow>
      is_instantiable T t \<and> constructor T t = None)"
proof (intro conjI impI)
  assume "\<not> is_instantiable T t"
  then show "check_constructor_call (T\<lparr>constructor := ctab\<rparr>) t args =
      Inl (JavaTypeError (''Type '' @ name T t @ '' is not instantiable''))"
    by (simp add: check_constructor_call_def)
next
  assume "check_each T args = Inr () \<and> \<not> is_instantiable T t \<and> constructor T t = None"
  then show "check_types T (ConstructorCall t args) =
      Inl (JavaTypeError (''Type '' @ name T t @ '' is not instantiable''))"
    by (simp add: check_constructor_call_def)
next
  assume a: "check_constructor_call T t args = Inl AttributeError"
  then show "is_instantiable T t"
    by (auto simp: check_constructor_call_def split: if_splits)
  show "constructor T t = None"
  proof (cases "constructor T t")
    case None
    then show ?thesis .
  next
    case (Some c)
    obtain msg where "constructor_mismatch T t (constructor_argument_types c) args =
        JavaTypeError msg"
      using constructor_mismatch_error [of T t "constructor_argument_types c" args] by auto
    with a Some show ?thesis
      by (auto simp: check_constructor_call_def Let_def split: if_splits
          dest: check_arg_types_attribute_error)
  qed
qed

theorem missing_constructor_unreachable_witness:
  "check_constructor_call sample TVoid [] = Inl (JavaTypeError ''Type void is not instantiable'') \<and>
   check_types sample (ConstructorCall TVoid [Literal ''5'' TInt]) =
     Inl (JavaTypeError ''Type void is not instantiable'') \<and>
   check_constructor_call (sample\<lparr>is_instantiable := (\<lambda>t. True)\<rparr>) TVoid [] = Inl AttributeError \<and>
   is_instantiable (sample\<lparr>is_instantiable := (\<lambda>t. True)\<rparr>) TVoid \<and>
   constructor (sample\<lparr>is_instantiable := (\<lambda>t. True)\<rparr>) TVoid = None"
  using missing_constructor_unreachable [where T = sample and t = TVoid and args = "[]"
      and ctab = "constructor sample"]
    missing_constructor_unreachable [where T = sample and t = TVoid
      and args = "[Literal ''5'' TInt]"]
    missing_constructor_unreachable [where T = "sample\<lparr>is_instantiable := (\<lambda>t. True)\<rparr>"
      and t = TVoid and args = "[]"]
  by (simp add: sample_simps check_constructor_call_def)

section \<open>Arity\<close>

text \<open>\<open>bark\<close> declares no parameter and is called with one argument, but the argument is
  the construction of the non-instantiable \<open>Object\<close>: the argument's error is the result.
  The constructor of \<open>Object\<close> declares no parameter and is called with one argument, but
  \<open>Object\<close> is not instantiable: that is the error.\<close>

theorem arity_counterexample:
  "method_named sample TDog ''bark'' =
     Inr \<lparr>method_name = ''bark'', argument_types = [], return_type = TVoid\<rparr> \<and>
   check_types sample (MethodCall (Variable ''d'' TDog) ''bark'' [ConstructorCall TObject []]) =
     Inl (JavaTypeError ''Type Object is not instantiable'') \<and>
   check_types sample (MethodCall (Variable ''d'' TDog) ''bark'' [ConstructorCall TObject []]) \<noteq>
     Inl (JavaTypeError ''Wrong number of arguments for Dog.bark(): expected 0, got 1'') \<and>
   constructor sample TObject = Some \<lparr>constructor_argument_types = []\<rparr> \<and>
   check_types sample (ConstructorCall TObject [Literal ''5'' TInt]) =
     Inl (JavaTypeError ''Type Object is not instantiable'')"
  by (simp add: sample_simps check_constructor_call_def)

text \<open>C4. When the children of a method call pass their own checks, the receiver's type
  is a subtype of the root reference type and the method is resolved, a number of
  arguments that differs from the declared number of parameters makes \<^verbatim>\<open>check_types\<close>
  raise the type error naming the expected and the actual count; likewise for a
  constructor call whose arguments pass their own checks and whose type is instantiable
  and has a constructor signature. Nothing is assumed of the types of the arguments: the
  arity check comes before them.\<close>

theorem arity_mismatch:
  "(check_types T receiver = Inr () \<and> check_each T args = Inr () \<and>
    static_type T receiver = Inr rt \<and> is_subtype_of T rt (type_object T) \<and>
    method_named T rt mname = Inr m \<and> length (argument_types m) \<noteq> length args \<longrightarrow>
      check_types T (MethodCall receiver mname args) =
        Inl (JavaTypeError (''Wrong number of arguments for '' @ name T rt @ ''.'' @ mname @
          ''(): expected '' @ str (length (argument_types m)) @ '', got '' @
          str (length args)))) \<and>
   (check_each T args = Inr () \<and> is_instantiable T t \<and> constructor T t = Some c \<and>
    length (constructor_argument_types c) \<noteq> length args \<longrightarrow>
      check_types T (ConstructorCall t args) =
        Inl (JavaTypeError (''Wrong number of arguments for '' @ name T t @
          '' constructor: expected '' @ str (length (constructor_argument_types c)) @
          '', got '' @ str (length args))))"
  by (simp add: check_method_call_def check_constructor_call_def)

theorem arity_mismatch_witness:
  "check_types sample (MethodCall (ConstructorCall TDog []) ''bark'' [Literal ''5'' TInt]) =
     Inl (JavaTypeError ''Wrong number of arguments for Dog.bark(): expected 0, got 1'') \<and>
   check_types sample (MethodCall (ConstructorCall TDog []) ''meet'' [ConstructorCall TDog []]) =
     Inl (JavaTypeError ''Wrong number of arguments for Dog.meet(): expected 2, got 1'') \<and>
   check_types sample (ConstructorCall TDog [Literal ''5'' TInt]) =
     Inl (JavaTypeError ''Wrong number of arguments for Dog constructor: expected 0, got 1'')"
  using arity_mismatch [where T = sample and receiver = "ConstructorCall TDog []"
      and rt = TDog and mname = "''bark''" and args = "[Literal ''5'' TInt]"
      and m = "\<lparr>method_name = ''bark'', argument_types = [], return_type = TVoid\<rparr>",
      THEN conjunct1]
    arity_mismatch [where T = sample and receiver = "ConstructorCall TDog []"
      and rt = TDog and mname = "''meet''" and args = "[ConstructorCall TDog []]"
      and m = "\<lparr>method_name = ''meet'', argument_types = [TAnimal, TAnimal], return_type = TVoid\<rparr>",
      THEN conjunct1]
    arity_mismatch [where T = sample and t = TDog and args = "[Literal ''5'' TInt]"
      and c = "\<lparr>constructor_argument_types = []\<rparr>", THEN conjunct2]
  by (simp add: sample_simps check_constructor_call_def str.simps)

section \<open>Repeated checks\<close>

text \<open>C9. Checking is read-only: on every store of node objects, at every address and
  for every recursion depth, the store after \<^verbatim>\<open>check_types\<close> and after
  \<^verbatim>\<open>static_type\<close> is the store before, whether the call returns, raises or exceeds the
  depth; no field of any node is changed. So a second call gives what the first gave
  (the same success, or the same error with the same message), and \<^verbatim>\<open>static_type\<close>
  after \<^verbatim>\<open>check_types\<close> gives what it gives before. Where the store holds an
  expression tree of at most that depth, both calls end, with the results of
  \<open>check_types\<close> and \<open>static_type\<close> on the tree.\<close>

theorem checking_is_read_only:
  "snd (check_types_run depth T self h) = h \<and>
   snd (static_type_run depth T self h) = h \<and>
   check_types_run depth T self (snd (check_types_run depth T self h)) =
     check_types_run depth T self h \<and>
   static_type_run depth T self (snd (static_type_run depth T self h)) =
     static_type_run depth T self h \<and>
   static_type_run depth T self (snd (check_types_run depth T self h)) =
     static_type_run depth T self h \<and>
   (load depth h self = Some e \<longrightarrow>
      check_types_run depth T self h = (Some (check_types T e), h) \<and>
      static_type_run depth T self h = (Some (static_type T e), h))"
proof -
  have c: "snd (check_types_run depth T self h) = h"
    using read_only_check_types_run [of depth T self] by (simp add: read_only_def)
  have s: "snd (static_type_run depth T self h) = h"
    using read_only_static_type_run [of depth T self] by (simp add: read_only_def)
  show ?thesis
    by (simp add: c s check_types_run_load static_type_run_load)
qed

theorem checking_is_read_only_witness:
  "load (Suc (Suc 0)) sample_heap 1 =
     Some (MethodCall (Variable ''d'' TDog) ''meet'' [Variable ''d'' TDog, Literal ''5'' TInt]) \<and>
   check_types_run (Suc (Suc 0)) sample 1 sample_heap =
     (Some (Inl (JavaTypeError
        ''Dog.meet() expects arguments of type (Animal, Animal), but got (Dog, int)'')),
      sample_heap) \<and>
   load (Suc (Suc 0)) sample_heap 4 = Some (MethodCall (Variable ''d'' TDog) ''bark'' []) \<and>
   check_types_run (Suc (Suc 0)) sample 4 sample_heap = (Some (Inr ()), sample_heap) \<and>
   static_type_run (Suc (Suc 0)) sample 4 sample_heap = (Some (Inr TVoid), sample_heap) \<and>
   fst (check_types_run (Suc (Suc 0)) sample 3 sample_heap) = None \<and>
   snd (check_types_run (Suc (Suc 0)) sample 3 sample_heap) = sample_heap"
  using checking_is_read_only [where depth = "Suc (Suc 0)" and T = sample and self = 1
      and h = sample_heap
      and e = "MethodCall (Variable ''d'' TDog) ''meet'' [Variable ''d'' TDog, Literal ''5'' TInt]"]
    checking_is_read_only [where depth = "Suc (Suc 0)" and T = sample and self = 4
      and h = sample_heap and e = "MethodCall (Variable ''d'' TDog) ''bark'' []"]
    checking_is_read_only [where depth = "Suc (Suc 0)" and T = sample and self = 3
      and h = sample_heap]
  by (simp add: sample_heap_def sample_simps check_method_call_def method_mismatch_def
      run_defs)

end
